theory Spec2Isabelle
  imports Main "HOL-Library.Sublist" "HOL-Library.Product_Lexorder"
begin

section \<open>Python values the pipeline works with\<close>

text \<open>
  Exceptions are values. Only the exception classes that the modelled code paths can
  raise are listed; \<open>HTTPStatusError\<close> carries the response status and
  \<open>TransportError\<close> stands for every network failure of the HTTP client.
\<close>

datatype py_error =
    TypeError
  | ValueError
  | OverflowError
  | AttributeError
  | KeyError
  | JSONDecodeError
  | HTTPStatusError nat
  | TransportError

datatype level = DEBUG | INFO | WARNING | ERROR

type_synonym log_entry = "level \<times> string"

subsection \<open>datetime\<close>

text \<open>
  A \<open>datetime.datetime\<close>: the civil fields and the UTC offset in minutes of its
  \<open>tzinfo\<close>, \<open>None\<close> for an offset-naive value.
\<close>

record datetime =
  year :: nat
  month :: nat
  day :: nat
  hour :: nat
  minute :: nat
  second :: nat
  microsecond :: nat
  utcoffset :: "int option"

definition MAXYEAR :: nat where
  "MAXYEAR = 9999"

definition isleap :: "nat \<Rightarrow> bool" where
  "isleap y = (y mod 4 = 0 \<and> (y mod 100 \<noteq> 0 \<or> y mod 400 = 0))"

definition days_in_month :: "nat \<Rightarrow> nat \<Rightarrow> nat" where
  "days_in_month y m =
     (if m = 2 then (if isleap y then 29 else 28)
      else if m = 4 \<or> m = 6 \<or> m = 9 \<or> m = 11 then 30
      else 31)"

definition valid_datetime :: "datetime \<Rightarrow> bool" where
  "valid_datetime d =
     (1 \<le> year d \<and> year d \<le> MAXYEAR \<and> 1 \<le> month d \<and> month d \<le> 12 \<and>
      1 \<le> day d \<and> day d \<le> days_in_month (year d) (month d) \<and>
      hour d < 24 \<and> minute d < 60 \<and> second d < 60 \<and> microsecond d < 1000000)"

text \<open>
  \<open>datetime.utcnow()\<close> reads the clock and returns an offset-naive value. The clock
  reading is a parameter of every function that calls it.
\<close>

definition utcnow :: "datetime \<Rightarrow> datetime" where
  "utcnow clock = clock\<lparr>utcoffset := None\<rparr>"

text \<open>The comparison key of offset-naive values: the civil fields, most significant first.\<close>

definition dt_key :: "datetime \<Rightarrow> nat \<times> nat \<times> nat \<times> nat \<times> nat \<times> nat \<times> nat" where
  "dt_key d = (year d, month d, day d, hour d, minute d, second d, microsecond d)"

text \<open>
  \<open>a <= now\<close> where the right operand is offset-naive, as every value of
  \<open>utcnow()\<close> is: an offset-aware left operand raises \<open>TypeError\<close>
  (can't compare offset-naive and offset-aware datetimes).
\<close>

definition le_naive :: "datetime \<Rightarrow> datetime \<Rightarrow> py_error + bool" where
  "le_naive a now =
     (case utcoffset a of
        None \<Rightarrow> Inr (dt_key a \<le> dt_key now)
      | Some off \<Rightarrow> Inl TypeError)"

text \<open>
  \<open>d + timedelta(days=n)\<close>: the date moves forward \<open>n\<close> days, the time of day and
  the \<open>tzinfo\<close> stay. A result after year 9999 raises \<open>OverflowError\<close>.
\<close>

definition next_day :: "datetime \<Rightarrow> py_error + datetime" where
  "next_day d =
     (if day d < days_in_month (year d) (month d) then Inr (d\<lparr>day := day d + 1\<rparr>)
      else if month d < 12 then Inr (d\<lparr>month := month d + 1, day := 1\<rparr>)
      else if year d + 1 > MAXYEAR then Inl OverflowError
      else Inr (d\<lparr>year := year d + 1, month := 1, day := 1\<rparr>))"

fun add_days :: "nat \<Rightarrow> datetime \<Rightarrow> py_error + datetime" where
  "add_days 0 d = Inr d"
| "add_days (Suc n) d =
     (case add_days n d of Inl e \<Rightarrow> Inl e | Inr d' \<Rightarrow> next_day d')"

text \<open>
  \<open>d + relativedelta(months=1)\<close> of \<open>dateutil\<close>: the month is advanced by one, the
  year with it after December, and the day is clipped to the length of the target month;
  \<open>datetime.replace\<close> raises \<open>ValueError\<close> for a year after 9999.
\<close>

definition add_month :: "datetime \<Rightarrow> py_error + datetime" where
  "add_month d =
     (let m = month d + 1;
          y' = (if m > 12 then year d + 1 else year d);
          m' = (if m > 12 then m - 12 else m);
          d' = min (days_in_month y' m') (day d)
      in if y' > MAXYEAR then Inl ValueError
         else Inr (d\<lparr>year := y', month := m', day := d'\<rparr>))"

section \<open>Recurrence calculator (recurring-service, services/recurrence.py)\<close>

text \<open>
  The loop \<open>while next_due <= now\<close> of \<open>calculate_next_due\<close>. Its body tests the
  pattern string again; for a string that is none of the three patterns the body would
  change nothing and the loop would not end, so not returning is the value \<open>None\<close>.
\<close>

partial_function (option) future_correction ::
  "string \<Rightarrow> datetime \<Rightarrow> datetime \<Rightarrow> (py_error + datetime) option" where
  "future_correction recurrence now next_due =
     (case le_naive next_due now of
        Inl e \<Rightarrow> Some (Inl e)
      | Inr b \<Rightarrow>
          if \<not> b then Some (Inr next_due)
          else if recurrence = ''daily'' then
            (case add_days 1 next_due of
               Inl e \<Rightarrow> Some (Inl e)
             | Inr d \<Rightarrow> future_correction recurrence now d)
          else if recurrence = ''weekly'' then
            (case add_days 7 next_due of
               Inl e \<Rightarrow> Some (Inl e)
             | Inr d \<Rightarrow> future_correction recurrence now d)
          else if recurrence = ''monthly'' then
            (case add_month next_due of
               Inl e \<Rightarrow> Some (Inl e)
             | Inr d \<Rightarrow> future_correction recurrence now d)
          else future_correction recurrence now next_due)"

text \<open>
  \<open>calculate_next_due(current_due, recurrence, completed_at)\<close>. \<open>clock0\<close> is the clock
  at line 33 (read only when both optional arguments are \<open>None\<close>: \<open>or\<close>
  short-circuits, and a datetime is always truthy), \<open>clock\<close> the clock at line 46.
  The result is the log written and the value returned or the exception raised.
\<close>

definition base_date :: "datetime \<Rightarrow> datetime option \<Rightarrow> datetime option \<Rightarrow> datetime" where
  "base_date clock0 current_due completed_at =
     (case current_due of
        Some d \<Rightarrow> d
      | None \<Rightarrow> (case completed_at of Some c \<Rightarrow> c | None \<Rightarrow> utcnow clock0))"

definition calculate_next_due ::
  "datetime \<Rightarrow> datetime \<Rightarrow> datetime option \<Rightarrow> string \<Rightarrow> datetime option
     \<Rightarrow> (log_entry list \<times> (py_error + datetime option)) option" where
  "calculate_next_due clock0 clock current_due recurrence completed_at =
     (if recurrence = ''none'' then Some ([], Inr None)
      else
        let base = base_date clock0 current_due completed_at;
            first =
              (if recurrence = ''daily'' then map_sum id Some (add_days 1 base)
               else if recurrence = ''weekly'' then map_sum id Some (add_days 7 base)
               else if recurrence = ''monthly'' then map_sum id Some (add_month base)
               else Inr None)
        in case first of
             Inl e \<Rightarrow> Some ([], Inl e)
           | Inr None \<Rightarrow> Some ([(WARNING, ''unknown_recurrence_pattern'')], Inr None)
           | Inr (Some next_due) \<Rightarrow>
               (case future_correction recurrence (utcnow clock) next_due of
                  None \<Rightarrow> None
                | Some (Inl e) \<Rightarrow> Some ([], Inl e)
                | Some (Inr d) \<Rightarrow> Some ([(INFO, ''calculated_next_due'')], Inr (Some d))))"

subsection \<open>Vocabulary for the properties of the calculator\<close>

text \<open>One interval of a pattern, as the spec words it, and \<open>n\<close> intervals in a row.\<close>

definition advance :: "string \<Rightarrow> datetime \<Rightarrow> py_error + datetime" where
  "advance pattern d =
     (if pattern = ''daily'' then add_days 1 d
      else if pattern = ''weekly'' then add_days 7 d
      else add_month d)"

fun advance_n :: "string \<Rightarrow> nat \<Rightarrow> datetime \<Rightarrow> py_error + datetime" where
  "advance_n pattern 0 d = Inr d"
| "advance_n pattern (Suc n) d =
     (case advance pattern d of Inl e \<Rightarrow> Inl e | Inr d' \<Rightarrow> advance_n pattern n d')"


text \<open>What \<open>calculate_next_due\<close> makes of the outcome of its loop: the log line and the value.\<close>

definition finish ::
  "(py_error + datetime) option \<Rightarrow> (log_entry list \<times> (py_error + datetime option)) option" where
  "finish r =
     (case r of
        None \<Rightarrow> None
      | Some (Inl e) \<Rightarrow> Some ([], Inl e)
      | Some (Inr d) \<Rightarrow> Some ([(INFO, ''calculated_next_due'')], Inr (Some d)))"

text \<open>
  The distance of a date from the last representable month: every successful step of the
  loop makes it smaller, which is why the loop ends.
\<close>

definition dt_rank :: "datetime \<Rightarrow> nat" where
  "dt_rank d = ((10000 - year d) * 13 + (12 - month d)) * 32 + (31 - day d)"

text \<open>A datetime at midnight, for the examples.\<close>

definition dt :: "nat \<Rightarrow> nat \<Rightarrow> nat \<Rightarrow> int option \<Rightarrow> datetime" where
  "dt y m d off = \<lparr>year = y, month = m, day = d, hour = 0, minute = 0, second = 0,
     microsecond = 0, utcoffset = off\<rparr>"

section \<open>JSON bodies and the Python operations applied to them\<close>

text \<open>
  A parsed JSON value. An object keeps its members in document order; as in a Python
  \<open>dict\<close> built by \<open>json.loads\<close>, the last member of a repeated key is the one found.
\<close>

datatype json =
    JNull
  | JBool bool
  | JNum int
  | JStr string
  | JArr "json list"
  | JObj "(string \<times> json) list"

definition lookup :: "(string \<times> json) list \<Rightarrow> string \<Rightarrow> json option" where
  "lookup members k = map_of (rev members) k"

text \<open>Truth value of a parsed JSON value in a Python condition.\<close>

fun truthy :: "json \<Rightarrow> bool" where
  "truthy JNull = False"
| "truthy (JBool b) = b"
| "truthy (JNum n) = (n \<noteq> 0)"
| "truthy (JStr s) = (s \<noteq> [])"
| "truthy (JArr xs) = (xs \<noteq> [])"
| "truthy (JObj ms) = (ms \<noteq> [])"

text \<open>\<open>x.get(k)\<close>: only a dict has the method.\<close>

fun py_get :: "json \<Rightarrow> string \<Rightarrow> py_error + json option" where
  "py_get (JObj ms) k = Inr (lookup ms k)"
| "py_get x k = Inl AttributeError"

text \<open>\<open>k in x\<close> for a string \<open>k\<close>.\<close>

fun py_in :: "string \<Rightarrow> json \<Rightarrow> py_error + bool" where
  "py_in k (JObj ms) = Inr (lookup ms k \<noteq> None)"
| "py_in k (JArr xs) = Inr (JStr k \<in> set xs)"
| "py_in k (JStr s) = Inr (sublist k s)"
| "py_in k x = Inl TypeError"

text \<open>\<open>x[k]\<close> for a string \<open>k\<close>.\<close>

fun py_item :: "json \<Rightarrow> string \<Rightarrow> py_error + json" where
  "py_item (JObj ms) k = (case lookup ms k of None \<Rightarrow> Inl KeyError | Some v \<Rightarrow> Inr v)"
| "py_item x k = Inl TypeError"

text \<open>The dict keys in insertion order.\<close>

definition keys :: "(string \<times> json) list \<Rightarrow> string list" where
  "keys ms = rev (remdups (rev (map fst ms)))"

text \<open>\<open>for t in x\<close>: the elements of a list, the characters of a string, the keys of a dict.\<close>

fun py_iter :: "json \<Rightarrow> py_error + json list" where
  "py_iter (JArr xs) = Inr xs"
| "py_iter (JStr s) = Inr (map (\<lambda>c. JStr [c]) s)"
| "py_iter (JObj ms) = Inr (map JStr (keys ms))"
| "py_iter x = Inl TypeError"

text \<open>
  \<open>s.replace(old, new)\<close> for a non-empty \<open>old\<close> (the code only replaces \<open>"Z"\<close> and
  \<open>"Bearer "\<close>): every occurrence, left to right, without overlap.
\<close>

fun str_replace :: "string \<Rightarrow> string \<Rightarrow> string \<Rightarrow> string" where
  "str_replace old new [] = []"
| "str_replace old new (c # cs) =
     (if old \<noteq> [] \<and> prefix old (c # cs)
      then new @ str_replace old new (drop (length old) (c # cs))
      else c # str_replace old new cs)"

text \<open>
  A field of a dict that a handler returns: a literal, a value taken from the event,
  \<open>str(e)\<close> of an exception, or an f-string with a literal start and one such part.
\<close>

datatype field = Lit string | Val "json option" | StrOf py_error | Fmt string field

type_synonym reply = "(string \<times> field) list"

section \<open>Backend client (recurring-service, services/backend\_client.py)\<close>

text \<open>
  The JSON body of the creation request. \<open>due_date\<close> and \<open>parent_task_id\<close> are members
  only when the argument is truthy; the parent id is \<open>str(x)\<close> of the event's task id
  \<open>x\<close>, and the model keeps \<open>x\<close>.
\<close>

record create_payload =
  p_title :: "json option"
  p_description :: "json option"
  p_priority :: json
  p_recurrence :: json
  p_due_date :: "datetime option"
  p_parent_task_id :: "json option option"

text \<open>An outbound request to the owning service, with the bearer token it carries.\<close>

datatype outbound_call =
    POST_task string create_payload
  | POST_tag string json json

text \<open>
  What the owning service does with a request: the client raises (no connection, timeout),
  or a response arrives with a status and a body that is JSON or not.
\<close>

datatype http_result = Fails py_error | Responds nat "json option"

record backend =
  on_create :: http_result
  on_tag :: "json \<Rightarrow> http_result"

text \<open>\<open>_add_tags\<close>: one request per tag; an exception is logged and the loop goes on.\<close>

fun add_tags :: "backend \<Rightarrow> string \<Rightarrow> json \<Rightarrow> json list \<Rightarrow> log_entry list \<times> outbound_call list" where
  "add_tags be token task_id [] = ([], [])"
| "add_tags be token task_id (tag # tags) =
     (let (lg, cs) = add_tags be token task_id tags
      in ((case on_tag be tag of
             Fails e \<Rightarrow> [(WARNING, ''tag_addition_failed'')]
           | Responds st b \<Rightarrow> []) @ lg,
          POST_tag token task_id tag # cs))"

text \<open>
  \<open>BackendClient.create_task\<close>. \<open>raise_for_status\<close> raises for every status outside
  200..299. Every exception is logged and raised again. The argument \<open>user_id\<close> only
  appears in log fields and is left out.
\<close>

definition create_task ::
  "backend \<Rightarrow> json option \<Rightarrow> string \<Rightarrow> json option \<Rightarrow> json \<Rightarrow> json \<Rightarrow> datetime option
     \<Rightarrow> json \<Rightarrow> json option
     \<Rightarrow> log_entry list \<times> outbound_call list \<times> (py_error + json)" where
  "create_task be title token description priority tags due_date recurrence parent_task_id =
     (let payload = \<lparr>p_title = title, p_description = description, p_priority = priority,
                     p_recurrence = recurrence, p_due_date = due_date,
                     p_parent_task_id =
                       (if parent_task_id = Some (JStr []) then None else Some parent_task_id)\<rparr>;
          posted = [POST_task token payload]
      in case on_create be of
           Fails e \<Rightarrow> ([(ERROR, ''task_creation_error'')], posted, Inl e)
         | Responds st b \<Rightarrow>
             if \<not> (200 \<le> st \<and> st < 300)
             then ([(ERROR, ''task_creation_failed'')], posted, Inl (HTTPStatusError st))
             else
               (case b of
                  None \<Rightarrow> ([(ERROR, ''task_creation_error'')], posted, Inl JSONDecodeError)
                | Some task_data \<Rightarrow>
                    (case py_get task_data ''id'' of
                       Inl e \<Rightarrow> ([(ERROR, ''task_creation_error'')], posted, Inl e)
                     | Inr tid \<Rightarrow>
                         if \<not> truthy tags
                         then ([(INFO, ''task_created_via_api'')], posted, Inr task_data)
                         else
                           (case py_item task_data ''id'' of
                              Inl e \<Rightarrow>
                                ([(INFO, ''task_created_via_api''), (ERROR, ''task_creation_error'')],
                                 posted, Inl e)
                            | Inr i \<Rightarrow>
                                (case py_iter tags of
                                   Inl e \<Rightarrow>
                                     ([(INFO, ''task_created_via_api''),
                                       (ERROR, ''task_creation_error'')], posted, Inl e)
                                 | Inr ts \<Rightarrow>
                                     (let (lg, cs) = add_tags be token i ts
                                      in ((INFO, ''task_created_via_api'') # lg, posted @ cs,
                                          Inr task_data)))))))"

section \<open>Reactivator endpoint (recurring-service, api/events.py)\<close>

text \<open>
  The inbound request: the body as \<open>request.json()\<close> parses it (\<open>None\<close> when it is not
  JSON) and the \<open>Authorization\<close> header when there is one.
\<close>

record request =
  req_body :: "json option"
  authorization :: "string option"

text \<open>
  What the endpoint does: the HTTP status and JSON content of its response, the log
  lines written and the requests sent to the owning service, in order.
\<close>

record outcome =
  http_status :: nat
  content :: reply
  logged :: "log_entry list"
  calls :: "outbound_call list"

text \<open>
  \<open>current_due\<close>: \<open>datetime.fromisoformat\<close> of the due date with \<open>Z\<close> replaced, when
  the task data has a truthy \<open>due_date\<close>. \<open>fromisoformat\<close> is the library parser.
\<close>

definition parse_due ::
  "(string \<Rightarrow> py_error + datetime) \<Rightarrow> json option \<Rightarrow> py_error + datetime option" where
  "parse_due fromisoformat due =
     (case due of
        None \<Rightarrow> Inr None
      | Some v \<Rightarrow>
          if \<not> truthy v then Inr None
          else (case v of
                  JStr s \<Rightarrow> map_sum id Some (fromisoformat (str_replace ''Z'' ''+00:00'' s))
                | _ \<Rightarrow> Inl AttributeError))"

text \<open>
  The inner \<open>try\<close> of \<open>handle_task_event\<close>: the token from the header, the skip without
  one, the creation call, and the \<open>except\<close> that answers \<open>RETRY\<close>.
\<close>

definition create_next_occurrence ::
  "backend \<Rightarrow> request \<Rightarrow> (string \<times> json) list \<Rightarrow> json option \<Rightarrow> json \<Rightarrow> datetime
     \<Rightarrow> log_entry list \<times> outbound_call list \<times> reply" where
  "create_next_occurrence be req task_data task_id recurrence next_due =
     (let auth_header = (case authorization req of Some h \<Rightarrow> h | None \<Rightarrow> []);
          token = (if auth_header \<noteq> [] then str_replace ''Bearer '' [] auth_header else [])
      in if token = []
         then ([(WARNING, ''no_auth_token_available'')], [],
               [(''status'', Lit ''SKIPPED''),
                (''reason'', Lit ''no authentication token available'')])
         else
           (case create_task be (lookup task_data ''title'') token
                   (lookup task_data ''description'')
                   (case lookup task_data ''priority'' of Some v \<Rightarrow> v | None \<Rightarrow> JStr ''medium'')
                   (case lookup task_data ''tags'' of Some v \<Rightarrow> v | None \<Rightarrow> JArr [])
                   (Some next_due) recurrence task_id of
              (lg, cs, Inl e) \<Rightarrow>
                (lg @ [(ERROR, ''failed_to_create_recurring_task'')], cs,
                 [(''status'', Lit ''RETRY''), (''error'', StrOf e)])
            | (lg, cs, Inr new_task) \<Rightarrow>
                (case py_get new_task ''id'' of
                   Inl e \<Rightarrow>
                     (lg @ [(ERROR, ''failed_to_create_recurring_task'')], cs,
                      [(''status'', Lit ''RETRY''), (''error'', StrOf e)])
                 | Inr new_id \<Rightarrow>
                     (lg @ [(INFO, ''recurring_task_created'')], cs,
                      [(''status'', Lit ''SUCCESS''), (''new_task_id'', Val new_id)]))))"

text \<open>
  The body of the outer \<open>try\<close>. \<open>clock_c\<close> is the clock read for \<open>completed_at\<close>;
  \<open>clock0\<close> and \<open>clock\<close> are the clocks of \<open>calculate_next_due\<close>. A pattern that is
  not a string equals none of the pattern literals, so \<open>calculate_next_due\<close> takes its
  unknown-pattern branch.
\<close>

definition task_event_try ::
  "(string \<Rightarrow> py_error + datetime) \<Rightarrow> backend \<Rightarrow> datetime \<Rightarrow> datetime \<Rightarrow> datetime \<Rightarrow> request
     \<Rightarrow> (log_entry list \<times> outbound_call list \<times> (py_error + reply)) option" where
  "task_event_try fromisoformat be clock_c clock0 clock req =
     (case req_body req of
        None \<Rightarrow> Some ([], [], Inl JSONDecodeError)
      | Some body \<Rightarrow>
     (case body of
        JObj b \<Rightarrow>
          (case (case lookup b ''data'' of Some v \<Rightarrow> v | None \<Rightarrow> body) of
             JObj data \<Rightarrow>
               (case (case lookup data ''task_data'' of Some v \<Rightarrow> v | None \<Rightarrow> JObj []) of
                  JObj task_data \<Rightarrow>
                    (let event_type = lookup data ''event_type'';
                         received = [(INFO, ''task_event_received'')]
                     in if event_type \<noteq> Some (JStr ''task.completed'')
                        then Some (received @ [(DEBUG, ''ignoring_non_completion_event'')], [],
                                   Inr [(''status'', Lit ''IGNORED''),
                                        (''reason'', Lit ''not a completion event'')])
                        else
                          let recurrence =
                                (case lookup task_data ''recurrence'' of
                                   Some v \<Rightarrow> v | None \<Rightarrow> JStr ''none'')
                          in if recurrence = JStr ''none''
                             then Some (received @ [(DEBUG, ''ignoring_non_recurring_task'')], [],
                                        Inr [(''status'', Lit ''IGNORED''),
                                             (''reason'', Lit ''task is not recurring'')])
                             else
                               (case parse_due fromisoformat (lookup task_data ''due_date'') of
                                  Inl e \<Rightarrow> Some (received, [], Inl e)
                                | Inr current_due \<Rightarrow>
                                    (case (case recurrence of
                                             JStr p \<Rightarrow>
                                               calculate_next_due clock0 clock current_due p
                                                 (Some (utcnow clock_c))
                                           | _ \<Rightarrow>
                                               Some ([(WARNING, ''unknown_recurrence_pattern'')],
                                                     Inr None)) of
                                       None \<Rightarrow> None
                                     | Some (lg, Inl e) \<Rightarrow> Some (received @ lg, [], Inl e)
                                     | Some (lg, Inr None) \<Rightarrow>
                                         Some (received @ lg
                                                 @ [(WARNING, ''could_not_calculate_next_due'')], [],
                                               Inr [(''status'', Lit ''FAILED''),
                                                    (''reason'',
                                                     Lit ''could not calculate next due date'')])
                                     | Some (lg, Inr (Some next_due)) \<Rightarrow>
                                         (case create_next_occurrence be req task_data
                                                 (lookup data ''task_id'') recurrence next_due of
                                            (lg', cs, r) \<Rightarrow>
                                              Some (received @ lg @ lg', cs, Inr r)))))
                | _ \<Rightarrow> Some ([], [], Inl AttributeError))
           | _ \<Rightarrow> Some ([], [], Inl AttributeError))
      | _ \<Rightarrow> Some ([], [], Inl AttributeError)))"

text \<open>
  \<open>handle_task_event\<close>: the outer \<open>except\<close> answers \<open>FAILED\<close>. Every path returns a
  dict, which the framework sends with status 200; no path sets another status.
\<close>

definition handle_task_event ::
  "(string \<Rightarrow> py_error + datetime) \<Rightarrow> backend \<Rightarrow> datetime \<Rightarrow> datetime \<Rightarrow> datetime \<Rightarrow> request
     \<Rightarrow> outcome option" where
  "handle_task_event fromisoformat be clock_c clock0 clock req =
     (case task_event_try fromisoformat be clock_c clock0 clock req of
        None \<Rightarrow> None
      | Some (lg, cs, Inl e) \<Rightarrow>
          Some \<lparr>http_status = 200,
                content = [(''status'', Lit ''FAILED''), (''error'', StrOf e)],
                logged = lg @ [(ERROR, ''task_event_processing_failed'')],
                calls = cs\<rparr>
      | Some (lg, cs, Inr r) \<Rightarrow>
          Some \<lparr>http_status = 200, content = r, logged = lg, calls = cs\<rparr>)"


section \<open>Reminder notifier (notification-service)\<close>

subsection \<open>handlers/reminder\_handler.py\<close>

text \<open>
  The notification that \<open>_send_notification\<close> prints: the user, the title, the due date
  as it is rendered (formatted when it parses, the raw string when it does not) and the
  reminder time when it parses.
\<close>

datatype due_text = NoDue | DueAt datetime | DueRaw string

record notification =
  n_user :: "json option"
  n_title :: "json option"
  n_due :: due_text
  n_reminder :: "datetime option"

text \<open>
  The due-date part of the message. Only \<open>ValueError\<close> is caught at this place; a
  truthy value that is not a string has no \<open>replace\<close>.
\<close>

definition render_due ::
  "(string \<Rightarrow> py_error + datetime) \<Rightarrow> json option \<Rightarrow> py_error + due_text" where
  "render_due fromisoformat due_at =
     (case due_at of
        None \<Rightarrow> Inr NoDue
      | Some v \<Rightarrow>
          if \<not> truthy v then Inr NoDue
          else (case v of
                  JStr s \<Rightarrow>
                    (case fromisoformat (str_replace ''Z'' ''+00:00'' s) of
                       Inr d \<Rightarrow> Inr (DueAt d)
                     | Inl e \<Rightarrow> if e = ValueError then Inr (DueRaw s) else Inl e)
                | _ \<Rightarrow> Inl AttributeError))"

definition render_reminder ::
  "(string \<Rightarrow> py_error + datetime) \<Rightarrow> json option \<Rightarrow> py_error + datetime option" where
  "render_reminder fromisoformat remind_at =
     (case remind_at of
        None \<Rightarrow> Inr None
      | Some v \<Rightarrow>
          if \<not> truthy v then Inr None
          else (case v of
                  JStr s \<Rightarrow>
                    (case fromisoformat (str_replace ''Z'' ''+00:00'' s) of
                       Inr d \<Rightarrow> Inr (Some d)
                     | Inl e \<Rightarrow> if e = ValueError then Inr None else Inl e)
                | _ \<Rightarrow> Inl AttributeError))"

text \<open>
  \<open>_send_notification\<close>: the log, the notifications printed, and the dict it returns,
  given as its \<open>success\<close> flag and its message.
\<close>

definition send_notification ::
  "(string \<Rightarrow> py_error + datetime) \<Rightarrow> json option \<Rightarrow> json option \<Rightarrow> json option
     \<Rightarrow> json option \<Rightarrow> json option
     \<Rightarrow> log_entry list \<times> notification list \<times> bool \<times> field" where
  "send_notification fromisoformat task_id title due_at remind_at user_id =
     (case render_due fromisoformat due_at of
        Inl e \<Rightarrow>
          ([(ERROR, ''Failed to send notification'')], [], False,
           Fmt ''Notification sending failed: '' (StrOf e))
      | Inr due \<Rightarrow>
          (case render_reminder fromisoformat remind_at of
             Inl e \<Rightarrow>
               ([(ERROR, ''Failed to send notification'')], [], False,
                Fmt ''Notification sending failed: '' (StrOf e))
           | Inr reminder \<Rightarrow>
               ([(INFO, ''Sending notification to user'')],
                [\<lparr>n_user = user_id, n_title = title, n_due = due, n_reminder = reminder\<rparr>],
                True, Lit ''Notification sent successfully'')))"

text \<open>\<open>_validate_event_data\<close>: the loop over the required fields.\<close>

fun validate_fields :: "json \<Rightarrow> string list \<Rightarrow> log_entry list \<times> (py_error + bool)" where
  "validate_fields event_data [] = ([], Inr True)"
| "validate_fields event_data (f # fs) =
     (case py_in f event_data of
        Inl e \<Rightarrow> ([], Inl e)
      | Inr present \<Rightarrow>
          if \<not> present then ([(WARNING, ''Missing required field'')], Inr False)
          else (case py_item event_data f of
                  Inl e \<Rightarrow> ([], Inl e)
                | Inr v \<Rightarrow>
                    if \<not> truthy v then ([(WARNING, ''Missing required field'')], Inr False)
                    else validate_fields event_data fs))"

definition validate_event_data :: "json \<Rightarrow> log_entry list \<times> (py_error + bool)" where
  "validate_event_data event_data =
     validate_fields event_data [''task_id'', ''title'', ''user_id'']"

text \<open>
  What \<open>ReminderHandler.handle_reminder_event\<close> does: the dict it returns, its log, the
  number of calls of \<open>_send_notification\<close> and the notifications printed.
\<close>

record handled =
  result :: reply
  handler_log :: "log_entry list"
  dispatch_attempts :: nat
  printed :: "notification list"

definition unexpected :: "log_entry list \<Rightarrow> py_error \<Rightarrow> handled" where
  "unexpected lg e =
     \<lparr>result = [(''status'', Lit ''error''), (''message'', Fmt ''Unexpected error: '' (StrOf e))],
      handler_log = lg @ [(ERROR, ''Unexpected error handling reminder event'')],
      dispatch_attempts = 0, printed = []\<rparr>"

definition handle_reminder_event ::
  "(string \<Rightarrow> py_error + datetime) \<Rightarrow> json \<Rightarrow> handled" where
  "handle_reminder_event fromisoformat event_data =
     (let received = [(INFO, ''Received reminder event'')]
      in case validate_event_data event_data of
           (lg, Inl e) \<Rightarrow> unexpected (received @ lg) e
         | (lg, Inr valid) \<Rightarrow>
             if \<not> valid
             then \<lparr>result = [(''status'', Lit ''error''),
                             (''message'', Lit ''Invalid reminder event data'')],
                   handler_log = received @ lg, dispatch_attempts = 0, printed = []\<rparr>
             else
               (case event_data of
                  JObj ms \<Rightarrow>
                    (let task_id = lookup ms ''task_id'';
                         title = lookup ms ''title'';
                         due_at = lookup ms ''due_at'';
                         remind_at = lookup ms ''remind_at'';
                         user_id = lookup ms ''user_id'';
                         processing = [(INFO, ''Processing reminder for task'')]
                     in case send_notification fromisoformat task_id title due_at remind_at user_id of
                          (lg', ns, success, message) \<Rightarrow>
                            if success
                            then \<lparr>result =
                                    [(''status'', Lit ''success''),
                                     (''message'',
                                      Fmt ''Reminder notification sent for task '' (Val title)),
                                     (''task_id'', Val task_id), (''user_id'', Val user_id)],
                                  handler_log =
                                    received @ lg @ processing @ lg'
                                      @ [(INFO, ''Successfully sent reminder notification'')],
                                  dispatch_attempts = 1, printed = ns\<rparr>
                            else \<lparr>result =
                                    [(''status'', Lit ''error''),
                                     (''message'', Fmt ''Failed to send notification: '' message),
                                     (''task_id'', Val task_id), (''user_id'', Val user_id)],
                                  handler_log =
                                    received @ lg @ processing @ lg'
                                      @ [(ERROR, ''Failed to send reminder notification'')],
                                  dispatch_attempts = 1, printed = ns\<rparr>)
                | _ \<Rightarrow> unexpected (received @ lg) AttributeError))"

subsection \<open>api/reminders.py\<close>

text \<open>
  The endpoint hands the parsed body to the handler as it is and answers 200 when the
  handler's status is \<open>success\<close>, 500 otherwise and when the body does not parse.
\<close>

record reminder_response =
  status_code :: nat
  response_content :: reply
  handling :: "handled option"

definition handle_reminder_api ::
  "(string \<Rightarrow> py_error + datetime) \<Rightarrow> json option \<Rightarrow> reminder_response" where
  "handle_reminder_api fromisoformat body =
     (case body of
        None \<Rightarrow>
          \<lparr>status_code = 500,
           response_content =
             [(''status'', Lit ''error''),
              (''message'', Fmt ''Failed to process reminder event: '' (StrOf JSONDecodeError))],
           handling = None\<rparr>
      | Some event_data \<Rightarrow>
          (let h = handle_reminder_event fromisoformat event_data
           in if map_of (result h) ''status'' = Some (Lit ''success'')
              then \<lparr>status_code = 200, response_content = result h, handling = Some h\<rparr>
              else \<lparr>status_code = 500, response_content = result h, handling = Some h\<rparr>))"

section \<open>Event publisher (backend, services/events/publisher.py)\<close>

datatype Priority = LOW | MEDIUM | HIGH

datatype Recurrence = NONE | DAILY | WEEKLY | MONTHLY



text \<open>
  The \<open>Task\<close> entity as the publisher reads it (a UUID is its string, the field \<open>id\<close>
  is \<open>id'\<close> here, and \<open>tags\<close> holds the tag names), and the two schemas of the envelope.
\<close>

record Task =
  id' :: string
  title :: string
  description :: "string option"
  is_completed :: bool
  priority :: Priority
  due_date :: "datetime option"
  remind_at :: "datetime option"
  recurrence :: Recurrence
  parent_task_id :: "string option"
  tags :: "string list"
  created_at :: datetime
  updated_at :: datetime

record TaskEventData =
  ed_id :: string
  ed_title :: string
  ed_description :: "string option"
  ed_is_completed :: bool
  ed_priority :: string
  ed_due_date :: "datetime option"
  ed_remind_at :: "datetime option"
  ed_recurrence :: string
  ed_parent_task_id :: "string option"
  ed_tags :: "string list"
  ed_created_at :: datetime
  ed_updated_at :: datetime

record TaskEvent =
  event_type :: string
  task_id :: string
  task_data :: TaskEventData
  user_id :: string
  timestamp :: datetime







section \<open>Vocabulary and example values for the properties of the handlers\<close>

text \<open>Every field of a list is a member of the object with a truthy value.\<close>

definition required_present :: "(string \<times> json) list \<Rightarrow> string list \<Rightarrow> bool" where
  "required_present ms fs = (\<forall>f \<in> set fs. \<exists>v. lookup ms f = Some v \<and> truthy v)"

text \<open>Values for the examples: a parser that accepts nothing, events, a backend, a task.\<close>

definition no_parser :: "string \<Rightarrow> py_error + datetime" where
  "no_parser s = Inl ValueError"

definition jan8 :: datetime where
  "jan8 = dt 2025 1 8 None"

definition reminder_without_user :: json where
  "reminder_without_user = JObj [(''task_id'', JStr ''t1''), (''title'', JStr ''Pay the rent'')]"

definition reminder_complete :: json where
  "reminder_complete =
     JObj [(''task_id'', JStr ''t1''), (''title'', JStr ''Pay the rent''), (''user_id'', JStr ''u1'')]"

definition completion_event :: "string \<Rightarrow> (string \<times> json) list" where
  "completion_event pattern =
     [(''event_type'', JStr ''task.completed''), (''task_id'', JStr ''t1''),
      (''task_data'', JObj [(''id'', JStr ''t1''), (''title'', JStr ''Water the plants''),
                           (''recurrence'', JStr pattern)]),
      (''user_id'', JStr ''u1'')]"

definition failing_backend :: backend where
  "failing_backend = \<lparr>on_create = Responds 500 None, on_tag = (\<lambda>t. Fails TransportError)\<rparr>"




section \<open>Properties of the recurrence calculator\<close>

subsection \<open>Calendar steps\<close>

lemma days_in_month_le: "days_in_month y m \<le> 31"
  by (simp add: days_in_month_def)

lemma days_in_month_ge: "28 \<le> days_in_month y m"
  by (simp add: days_in_month_def)

lemma next_day_rank: "next_day d = Inr d' \<Longrightarrow> dt_rank d' < dt_rank d"
  using days_in_month_le [of "year d" "month d"]
  by (auto simp: next_day_def dt_rank_def MAXYEAR_def split: if_splits)

lemma add_days_rank: "add_days n d = Inr d' \<Longrightarrow> 0 < n \<Longrightarrow> dt_rank d' < dt_rank d"
proof (induction n arbitrary: d')
  case 0
  then show ?case by simp
next
  case (Suc n)
  from Suc.prems(1) obtain m where m: "add_days n d = Inr m" and s: "next_day m = Inr d'"
    by (auto split: sum.splits)
  show ?case
  proof (cases n)
    case 0
    with m s show ?thesis using next_day_rank by auto
  next
    case (Suc k)
    with Suc.IH [OF m] have "dt_rank m < dt_rank d" by simp
    with next_day_rank [OF s] show ?thesis by simp
  qed
qed

lemma add_month_rank: "add_month d = Inr d' \<Longrightarrow> dt_rank d' < dt_rank d"
  by (auto simp: add_month_def dt_rank_def MAXYEAR_def Let_def split: if_splits)

lemma next_day_key: "next_day d = Inr d' \<Longrightarrow> dt_key d < dt_key d'"
  by (auto simp: next_day_def dt_key_def split: if_splits)

lemma add_month_key: "add_month d = Inr d' \<Longrightarrow> dt_key d < dt_key d'"
  by (auto simp: add_month_def dt_key_def Let_def split: if_splits)

lemma next_day_offset: "next_day d = Inr d' \<Longrightarrow> utcoffset d' = utcoffset d"
  by (auto simp: next_day_def split: if_splits)

lemma add_days_offset: "add_days n d = Inr d' \<Longrightarrow> utcoffset d' = utcoffset d"
  by (induction n arbitrary: d') (auto split: sum.splits dest: next_day_offset)

lemma add_month_offset: "add_month d = Inr d' \<Longrightarrow> utcoffset d' = utcoffset d"
  by (auto simp: add_month_def Let_def split: if_splits)

lemma add_days_key: "add_days n d = Inr d' \<Longrightarrow> 0 < n \<Longrightarrow> dt_key d < dt_key d'"
proof (induction n arbitrary: d')
  case 0
  then show ?case by simp
next
  case (Suc n)
  from Suc.prems(1) obtain m where m: "add_days n d = Inr m" and s: "next_day m = Inr d'"
    by (auto split: sum.splits)
  show ?case
  proof (cases n)
    case 0
    with m s show ?thesis using next_day_key by auto
  next
    case (Suc k)
    with Suc.IH [OF m] have "dt_key d < dt_key m" by simp
    with next_day_key [OF s] show ?thesis by (blast intro: less_trans)
  qed
qed

lemma add_days_year:
  "add_days n c = Inr c' \<Longrightarrow> n \<le> 28 \<Longrightarrow>
     year c' = year c \<or> (year c' = year c + 1 \<and> month c' = 1 \<and> day c' \<le> n)"
proof (induction n arbitrary: c')
  case 0
  then show ?case by simp
next
  case (Suc n)
  from Suc.prems(1) obtain m where m: "add_days n c = Inr m" and s: "next_day m = Inr c'"
    by (auto split: sum.splits)
  from Suc.IH [OF m] Suc.prems(2)
  have ih: "year m = year c \<or> (year m = year c + 1 \<and> month m = 1 \<and> day m \<le> n)" by simp
  from s ih Suc.prems(2) show ?case
    by (auto simp: next_day_def days_in_month_def split: if_splits)
qed

lemma add_days_no_overflow:
  "year c < MAXYEAR \<Longrightarrow> n \<le> 28 \<Longrightarrow> \<exists>c'. add_days n c = Inr c'"
proof (induction n)
  case 0
  then show ?case by simp
next
  case (Suc n)
  then obtain m where m: "add_days n c = Inr m" by auto
  from add_days_year [OF m] Suc.prems
  have "year m = year c \<or> (year m = year c + 1 \<and> month m = 1 \<and> day m \<le> n)" by simp
  with Suc.prems have "\<exists>c'. next_day m = Inr c'"
    by (auto simp: next_day_def days_in_month_def MAXYEAR_def)
  with m show ?case by auto
qed

lemma add_month_no_overflow: "year c < MAXYEAR \<Longrightarrow> \<exists>c'. add_month c = Inr c'"
  by (auto simp: add_month_def Let_def)

lemma days_in_month_pos: "Suc 0 \<le> days_in_month y m"
  by (simp add: days_in_month_def)

lemma next_day_valid: "valid_datetime d \<Longrightarrow> next_day d = Inr d' \<Longrightarrow> valid_datetime d'"
  by (auto simp: next_day_def valid_datetime_def MAXYEAR_def days_in_month_pos split: if_splits)

lemma add_days_valid: "valid_datetime d \<Longrightarrow> add_days n d = Inr d' \<Longrightarrow> valid_datetime d'"
  by (induction n arbitrary: d') (auto split: sum.splits dest: next_day_valid)

lemma add_month_valid: "valid_datetime d \<Longrightarrow> add_month d = Inr d' \<Longrightarrow> valid_datetime d'"
  by (auto simp: add_month_def valid_datetime_def MAXYEAR_def Let_def days_in_month_pos
           split: if_splits)

lemma key_le_year: "dt_key a \<le> dt_key b \<Longrightarrow> year a \<le> year b"
  by (auto simp: dt_key_def)

subsection \<open>The future-correction loop\<close>

lemma advance_rank: "advance p d = Inr d' \<Longrightarrow> dt_rank d' < dt_rank d"
  by (auto simp: advance_def split: if_splits dest: next_day_rank add_days_rank add_month_rank)

lemma advance_key: "advance p d = Inr d' \<Longrightarrow> dt_key d < dt_key d'"
  by (auto simp: advance_def split: if_splits dest: next_day_key add_days_key add_month_key)

lemma advance_offset: "advance p d = Inr d' \<Longrightarrow> utcoffset d' = utcoffset d"
  by (auto simp: advance_def split: if_splits dest: next_day_offset add_days_offset add_month_offset)

lemma advance_no_overflow: "year d < MAXYEAR \<Longrightarrow> \<exists>d'. advance p d = Inr d'"
  using add_days_no_overflow [of d 1] add_days_no_overflow [of d 7] add_month_no_overflow [of d]
  by (auto simp: advance_def)

lemma future_correction_step:
  assumes "p \<in> {''daily'', ''weekly'', ''monthly''}"
  shows "future_correction p now c =
     (case le_naive c now of
        Inl e \<Rightarrow> Some (Inl e)
      | Inr b \<Rightarrow>
          if \<not> b then Some (Inr c)
          else (case advance p c of
                  Inl e \<Rightarrow> Some (Inl e)
                | Inr d \<Rightarrow> future_correction p now d))"
  using assms
  by (subst future_correction.simps) (auto simp: advance_def split: sum.splits)

lemma future_correction_returns:
  assumes p: "p \<in> {''daily'', ''weekly'', ''monthly''}"
  shows "\<exists>r. future_correction p now c = Some r \<and>
           (\<forall>d. r = Inr d \<longrightarrow>
              utcoffset d = None \<and> dt_key now < dt_key d \<and> (\<exists>n. advance_n p n c = Inr d))"
proof (induction c rule: measure_induct_rule [of dt_rank])
  case (less c)
  show ?case
  proof (cases "le_naive c now")
    case (Inl e)
    then show ?thesis by (simp add: future_correction_step [OF p])
  next
    case (Inr b)
    show ?thesis
    proof (cases b)
      case False
      with Inr have off: "utcoffset c = None" and k: "dt_key now < dt_key c"
        by (auto simp: le_naive_def split: option.splits)
      have "advance_n p 0 c = Inr c" by simp
      with Inr False off k show ?thesis
        by (auto simp: future_correction_step [OF p] intro: exI [of _ 0])
    next
      case True
      show ?thesis
      proof (cases "advance p c")
        case (Inl e)
        with Inr True show ?thesis by (simp add: future_correction_step [OF p])
      next
        case (Inr d)
        from less.IH [OF advance_rank [OF Inr]]
        obtain r where r: "future_correction p now d = Some r"
          and post: "\<forall>d'. r = Inr d' \<longrightarrow>
              utcoffset d' = None \<and> dt_key now < dt_key d' \<and> (\<exists>n. advance_n p n d = Inr d')"
          by blast
        have eq: "future_correction p now c = Some r"
          using \<open>le_naive c now = Inr b\<close> True Inr r
          by (simp add: future_correction_step [OF p])
        have "\<exists>n. advance_n p n c = Inr d'" if "r = Inr d'" for d'
        proof -
          from post that obtain n where "advance_n p n d = Inr d'" by blast
          with Inr have "advance_n p (Suc n) c = Inr d'" by simp
          then show ?thesis by blast
        qed
        with eq post show ?thesis by blast
      qed
    qed
  qed
qed

lemma future_correction_naive:
  assumes p: "p \<in> {''daily'', ''weekly'', ''monthly''}"
    and now: "year now < MAXYEAR"
    and off: "utcoffset c = None"
  shows "\<exists>d. future_correction p now c = Some (Inr d)"
  using off
proof (induction c rule: measure_induct_rule [of dt_rank])
  case (less c)
  then have le: "le_naive c now = Inr (dt_key c \<le> dt_key now)"
    by (simp add: le_naive_def)
  show ?case
  proof (cases "dt_key c \<le> dt_key now")
    case False
    with le show ?thesis by (simp add: future_correction_step [OF p])
  next
    case True
    then have "year c < MAXYEAR" using key_le_year [of c now] now by simp
    then obtain d where d: "advance p c = Inr d" using advance_no_overflow by blast
    from less.IH [OF advance_rank [OF d]] advance_offset [OF d] less.prems
    obtain d' where "future_correction p now d = Some (Inr d')" by auto
    with le True d show ?thesis by (simp add: future_correction_step [OF p])
  qed
qed

subsection \<open>The calculator\<close>

lemma dt_key_utcnow [simp]: "dt_key (utcnow c) = dt_key c"
  by (simp add: dt_key_def utcnow_def)

lemma year_utcnow [simp]: "year (utcnow c) = year c"
  by (simp add: utcnow_def)


lemma calculate_next_due_pattern:
  assumes "p \<in> {''daily'', ''weekly'', ''monthly''}"
  shows "calculate_next_due clock0 clock cd p ca =
     (case advance p (base_date clock0 cd ca) of
        Inl e \<Rightarrow> Some ([], Inl e)
      | Inr first \<Rightarrow> finish (future_correction p (utcnow clock) first))"
  using assms
  by (auto simp: calculate_next_due_def advance_def finish_def Let_def
           split: sum.splits option.splits)

lemma calculate_next_due_naive_future:
  assumes p: "p \<in> {''daily'', ''weekly'', ''monthly''}"
    and off: "utcoffset cd = None"
    and past: "dt_key cd < dt_key clock"
    and yr: "year clock < MAXYEAR"
  shows "\<exists>d. calculate_next_due clock0 clock (Some cd) p ca
             = Some ([(INFO, ''calculated_next_due'')], Inr (Some d))
           \<and> dt_key clock < dt_key d"
proof -
  from past have "year cd \<le> year clock" using key_le_year [of cd clock] by simp
  with yr have "year cd < MAXYEAR" by simp
  then obtain first where first: "advance p cd = Inr first"
    using advance_no_overflow by blast
  have foff: "utcoffset first = None" using advance_offset [OF first] off by simp
  have yr': "year (utcnow clock) < MAXYEAR" using yr by simp
  from future_correction_naive [OF p yr' foff]
  obtain d where d: "future_correction p (utcnow clock) first = Some (Inr d)" by blast
  from future_correction_returns [OF p, of "utcnow clock" first] d
  have "dt_key clock < dt_key d" by simp
  moreover have "calculate_next_due clock0 clock (Some cd) p ca
      = Some ([(INFO, ''calculated_next_due'')], Inr (Some d))"
    using first d by (simp add: calculate_next_due_pattern [OF p] base_date_def finish_def)
  ultimately show ?thesis by blast
qed

section \<open>Claims about the recurrence calculator\<close>

lemma calculate_next_due_returns:
  "\<exists>r. calculate_next_due clock0 clock cd p ca = Some r"
proof (cases "p \<in> {''daily'', ''weekly'', ''monthly''}")
  case True
  show ?thesis
  proof (cases "advance p (base_date clock0 cd ca)")
    case (Inl e)
    then show ?thesis by (simp add: calculate_next_due_pattern [OF True])
  next
    case (Inr first)
    from future_correction_returns [OF True, of "utcnow clock" first]
    obtain r where "future_correction p (utcnow clock) first = Some r" by blast
    with Inr show ?thesis
      by (cases r) (simp_all add: calculate_next_due_pattern [OF True] finish_def)
  qed
next
  case False
  then show ?thesis by (auto simp: calculate_next_due_def)
qed

lemma calculate_next_due_weekly_example:
  "calculate_next_due (dt 2025 1 8 None) (dt 2025 1 8 None)
      (Some (dt 2025 1 1 None)) ''weekly'' None
   = Some ([(INFO, ''calculated_next_due'')], Inr (Some (dt 2025 1 15 None)))"
  by (simp add: calculate_next_due_pattern finish_def base_date_def dt_def utcnow_def
        future_correction_step advance_def le_naive_def dt_key_def next_day_def days_in_month_def
        eval_nat_numeral)

text \<open>
  Claim C1: for every pattern in daily, weekly, monthly and every previous due timestamp
  strictly in the past, \<open>calculate_next_due\<close> returns a timestamp strictly after the
  current time; for weekly, previous due 2025-01-01T00:00Z and the clock at
  2025-01-08T00:00Z the result is 2025-01-15T00:00Z.

  The reactivator parses an ISO string ending in \<open>Z\<close> (or carrying any offset) into an
  offset-aware datetime, and \<open>calculate_next_due\<close> compares its candidate with the
  offset-naive \<open>datetime.utcnow()\<close>. At the previous due 2025-01-01T00:00+00:00 the
  comparison \<open>next_due <= now\<close> raises \<open>TypeError\<close> and nothing is returned. For
  offset-naive timestamps the claim holds: \<open>calculate_next_due_naive_future\<close> and
  \<open>calculate_next_due_weekly_example\<close>.
\<close>

theorem calculate_next_due_aware_raises:
  "calculate_next_due (dt 2025 1 8 None) (dt 2025 1 8 None)
      (Some (dt 2025 1 1 (Some 0))) ''weekly'' None
   = Some ([], Inl TypeError)"
  by (simp add: calculate_next_due_pattern finish_def base_date_def dt_def utcnow_def
        future_correction_step advance_def le_naive_def next_day_def days_in_month_def
        eval_nat_numeral)





text \<open>
  Claim C10: for every candidate and every pattern in daily, weekly, monthly the
  future-correction loop returns. Each iteration moves the candidate strictly forward;
  a value returned is strictly after the time captured as now and is the candidate
  advanced a finite number of intervals; for an offset-naive candidate and a clock before
  year 9999 a value is returned, not an exception; and \<open>calculate_next_due\<close> returns on
  every input with such a pattern.
\<close>

theorem future_correction_terminates:
  assumes "p \<in> {''daily'', ''weekly'', ''monthly''}"
  shows "(\<exists>r. future_correction p (utcnow clock) c = Some r \<and>
            (\<forall>d. r = Inr d \<longrightarrow> dt_key clock < dt_key d \<and> (\<exists>n. advance_n p n c = Inr d)))
       \<and> (\<forall>d. advance p c = Inr d \<longrightarrow> dt_key c < dt_key d)
       \<and> (utcoffset c = None \<and> year clock < MAXYEAR \<longrightarrow>
            (\<exists>d. future_correction p (utcnow clock) c = Some (Inr d)))
       \<and> (\<exists>r. calculate_next_due clock0 clock current_due p completed_at = Some r)"
proof -
  from future_correction_returns [OF assms, of "utcnow clock" c]
  have a: "\<exists>r. future_correction p (utcnow clock) c = Some r \<and>
            (\<forall>d. r = Inr d \<longrightarrow> dt_key clock < dt_key d \<and> (\<exists>n. advance_n p n c = Inr d))"
    by auto
  have b: "\<forall>d. advance p c = Inr d \<longrightarrow> dt_key c < dt_key d"
    using advance_key by blast
  have c: "utcoffset c = None \<and> year clock < MAXYEAR \<longrightarrow>
            (\<exists>d. future_correction p (utcnow clock) c = Some (Inr d))"
    using future_correction_naive [OF assms, of "utcnow clock" c] by simp
  from a b c calculate_next_due_returns show ?thesis by blast
qed

theorem future_correction_terminates_witness:
  "''weekly'' \<in> {''daily'', ''weekly'', ''monthly''} \<and>
   (\<exists>d. future_correction ''weekly'' (utcnow (dt 2025 1 8 None)) (dt 2020 2 26 None) = Some (Inr d)
        \<and> dt_key (dt 2025 1 8 None) < dt_key d)"
proof -
  have h: "''weekly'' \<in> {''daily'', ''weekly'', ''monthly''}" by simp
  have n: "utcoffset (dt 2020 2 26 None) = None \<and> year (dt 2025 1 8 None) < MAXYEAR"
    by (simp add: dt_def MAXYEAR_def)
  from future_correction_terminates [OF h, of "dt 2025 1 8 None" "dt 2020 2 26 None"] n
  show ?thesis using h by fastforce
qed

section \<open>Properties of the handlers\<close>

subsection \<open>Publisher\<close>



subsection \<open>Notifier\<close>

lemma validate_fields_object:
  "validate_fields (JObj ms) fs =
     (if required_present ms fs then [] else [(WARNING, ''Missing required field'')],
      Inr (required_present ms fs))"
proof (induction fs)
  case Nil
  then show ?case by (simp add: required_present_def)
next
  case (Cons f fs)
  show ?case
  proof (cases "lookup ms f")
    case None
    then show ?thesis by (simp add: required_present_def)
  next
    case (Some v)
    then show ?thesis using Cons
      by (cases "truthy v") (auto simp: required_present_def)
  qed
qed

lemma validation_error:
  assumes "\<not> required_present ms [''task_id'', ''title'', ''user_id'']"
  shows "result (handle_reminder_event fi (JObj ms))
           = [(''status'', Lit ''error''), (''message'', Lit ''Invalid reminder event data'')]
       \<and> dispatch_attempts (handle_reminder_event fi (JObj ms)) = 0
       \<and> printed (handle_reminder_event fi (JObj ms)) = []"
proof -
  from assms show ?thesis
    by (simp add: handle_reminder_event_def validate_event_data_def validate_fields_object Let_def
          del: validate_fields.simps)
qed

lemma reminder_complete_is_sent:
  "status_code (handle_reminder_api no_parser (Some reminder_complete)) = 200
   \<and> dispatch_attempts (handle_reminder_event no_parser reminder_complete) = 1"
  by (simp add: handle_reminder_api_def handle_reminder_event_def validate_event_data_def
        reminder_complete_def lookup_def Let_def send_notification_def render_due_def
        render_reminder_def)

lemma reminder_handler_reads:
  assumes "lookup ms' ''task_id'' = lookup ms ''task_id''"
    and "lookup ms' ''title'' = lookup ms ''title''"
    and "lookup ms' ''user_id'' = lookup ms ''user_id''"
    and "lookup ms' ''due_at'' = lookup ms ''due_at''"
    and "lookup ms' ''remind_at'' = lookup ms ''remind_at''"
  shows "handle_reminder_event fi (JObj ms') = handle_reminder_event fi (JObj ms)"
proof -
  have "required_present ms' [''task_id'', ''title'', ''user_id'']
          = required_present ms [''task_id'', ''title'', ''user_id'']"
    using assms by (simp add: required_present_def)
  then show ?thesis
    using assms
    by (cases "required_present ms [''task_id'', ''title'', ''user_id'']")
       (simp_all add: handle_reminder_event_def validate_event_data_def validate_fields_object
          Let_def del: validate_fields.simps)
qed

subsection \<open>Reactivator\<close>


lemma create_next_occurrence_header:
  "authorization req' = authorization req \<Longrightarrow>
     create_next_occurrence be req' td tid rec nd = create_next_occurrence be req td tid rec nd"
  by (simp add: create_next_occurrence_def)

lemma task_event_try_object:
  assumes "req_body req = Some (JObj b)"
    and "(case lookup b ''data'' of Some v \<Rightarrow> v | None \<Rightarrow> JObj b) = JObj data"
    and "(case lookup data ''task_data'' of Some v \<Rightarrow> v | None \<Rightarrow> JObj []) = JObj td"
  shows "task_event_try fi be cc c0 c req =
     (if lookup data ''event_type'' \<noteq> Some (JStr ''task.completed'')
      then Some ([(INFO, ''task_event_received''), (DEBUG, ''ignoring_non_completion_event'')], [],
                 Inr [(''status'', Lit ''IGNORED''), (''reason'', Lit ''not a completion event'')])
      else if (case lookup td ''recurrence'' of Some v \<Rightarrow> v | None \<Rightarrow> JStr ''none'') = JStr ''none''
      then Some ([(INFO, ''task_event_received''), (DEBUG, ''ignoring_non_recurring_task'')], [],
                 Inr [(''status'', Lit ''IGNORED''), (''reason'', Lit ''task is not recurring'')])
      else
        (case parse_due fi (lookup td ''due_date'') of
           Inl e \<Rightarrow> Some ([(INFO, ''task_event_received'')], [], Inl e)
         | Inr current_due \<Rightarrow>
             (case (case (case lookup td ''recurrence'' of Some v \<Rightarrow> v | None \<Rightarrow> JStr ''none'') of
                      JStr p \<Rightarrow> calculate_next_due c0 c current_due p (Some (utcnow cc))
                    | _ \<Rightarrow> Some ([(WARNING, ''unknown_recurrence_pattern'')], Inr None)) of
                None \<Rightarrow> None
              | Some (lg, Inl e) \<Rightarrow> Some ([(INFO, ''task_event_received'')] @ lg, [], Inl e)
              | Some (lg, Inr None) \<Rightarrow>
                  Some ([(INFO, ''task_event_received'')] @ lg
                          @ [(WARNING, ''could_not_calculate_next_due'')], [],
                        Inr [(''status'', Lit ''FAILED''),
                             (''reason'', Lit ''could not calculate next due date'')])
              | Some (lg, Inr (Some next_due)) \<Rightarrow>
                  (case create_next_occurrence be req td (lookup data ''task_id'')
                          (case lookup td ''recurrence'' of Some v \<Rightarrow> v | None \<Rightarrow> JStr ''none'')
                          next_due of
                     (lg', cs, r) \<Rightarrow>
                       Some ([(INFO, ''task_event_received'')] @ lg @ lg', cs, Inr r)))))"
  using assms unfolding task_event_try_def by (simp add: Let_def)


lemma handle_task_event_status:
  "handle_task_event fi be cc c0 c req = Some out \<Longrightarrow> http_status out = 200"
  by (auto simp: handle_task_event_def split: option.splits prod.splits sum.splits)



lemma task_event_try_unwraps:
  assumes r: "req_body req = Some (JObj b)"
    and p: "lookup b ''data'' = Some p"
    and single: "\<forall>ms. p = JObj ms \<longrightarrow> lookup ms ''data'' = None"
  shows "task_event_try fi be cc c0 c req
           = task_event_try fi be cc c0 c (req\<lparr>req_body := Some p\<rparr>)"
proof (cases p)
  case (JObj data)
  with single have nodata: "lookup data ''data'' = None" by simp
  have r': "req_body (req\<lparr>req_body := Some p\<rparr>) = Some (JObj data)" using JObj by simp
  have d: "(case lookup b ''data'' of Some v \<Rightarrow> v | None \<Rightarrow> JObj b) = JObj data"
    using p JObj by simp
  have d': "(case lookup data ''data'' of Some v \<Rightarrow> v | None \<Rightarrow> JObj data) = JObj data"
    using nodata by simp
  show ?thesis
  proof (cases "case lookup data ''task_data'' of Some v \<Rightarrow> v | None \<Rightarrow> JObj []")
    case inner: (JObj td)
    have h: "create_next_occurrence be (req\<lparr>req_body := Some p\<rparr>) td tid rec nd
               = create_next_occurrence be req td tid rec nd" for tid rec nd
      by (rule create_next_occurrence_header) simp
    show ?thesis
      unfolding task_event_try_object [OF r d inner] task_event_try_object [OF r' d' inner] h
      by (rule refl)
  qed (simp_all add: task_event_try_def r r' d d')
qed (simp_all add: task_event_try_def r p)


lemma completion_event_parts:
  "lookup (completion_event p) ''data'' = None"
  "lookup (completion_event p) ''event_type'' = Some (JStr ''task.completed'')"
  "lookup (completion_event p) ''task_id'' = Some (JStr ''t1'')"
  "lookup (completion_event p) ''task_data'' =
     Some (JObj [(''id'', JStr ''t1''), (''title'', JStr ''Water the plants''),
                 (''recurrence'', JStr p)])"
  by (simp_all add: completion_event_def lookup_def)

section \<open>Claims about the handlers\<close>


text \<open>
  Claim C5, as the code has it: for every reminder payload that is a JSON object without
  one of the members \<open>task_id\<close>, \<open>title\<close>, \<open>user_id\<close>, the handler returns status
  \<open>error\<close> with the message "Invalid reminder event data" and calls
  \<open>_send_notification\<close> zero times; the endpoint answers HTTP 500, so the event is not
  acknowledged.
\<close>

theorem reminder_missing_field_is_retried:
  assumes "lookup ms ''task_id'' = None \<or> lookup ms ''title'' = None \<or> lookup ms ''user_id'' = None"
  shows "result (handle_reminder_event fi (JObj ms))
           = [(''status'', Lit ''error''), (''message'', Lit ''Invalid reminder event data'')]
       \<and> dispatch_attempts (handle_reminder_event fi (JObj ms)) = 0
       \<and> printed (handle_reminder_event fi (JObj ms)) = []
       \<and> status_code (handle_reminder_api fi (Some (JObj ms))) = 500"
proof -
  from assms have n: "\<not> required_present ms [''task_id'', ''title'', ''user_id'']"
    by (auto simp: required_present_def)
  from validation_error [OF n, of fi] show ?thesis
    by (simp add: handle_reminder_api_def Let_def)
qed

theorem reminder_missing_field_is_retried_witness:
  "lookup [(''task_id'', JStr ''t1''), (''title'', JStr ''Pay the rent'')] ''user_id'' = None
   \<and> status_code (handle_reminder_api no_parser (Some reminder_without_user)) = 500
   \<and> dispatch_attempts (handle_reminder_event no_parser reminder_without_user) = 0"
proof -
  have h: "lookup [(''task_id'', JStr ''t1''), (''title'', JStr ''Pay the rent'')] ''user_id'' = None"
    by (simp add: lookup_def)
  then have "lookup [(''task_id'', JStr ''t1''), (''title'', JStr ''Pay the rent'')] ''task_id'' = None
     \<or> lookup [(''task_id'', JStr ''t1''), (''title'', JStr ''Pay the rent'')] ''title'' = None
     \<or> lookup [(''task_id'', JStr ''t1''), (''title'', JStr ''Pay the rent'')] ''user_id'' = None"
    by blast
  from reminder_missing_field_is_retried [OF this, of no_parser] h
  show ?thesis by (simp add: reminder_without_user_def)
qed

text \<open>
  The claim says that such an event is acknowledged with a 2xx status. A reminder
  without \<open>user_id\<close> is answered with 500.
\<close>

theorem reminder_missing_user_not_acknowledged:
  "\<not> (200 \<le> status_code (handle_reminder_api no_parser (Some reminder_without_user))
      \<and> status_code (handle_reminder_api no_parser (Some reminder_without_user)) < 300)"
  by (simp add: handle_reminder_api_def handle_reminder_event_def validate_event_data_def
        reminder_without_user_def lookup_def Let_def)







text \<open>
  Claim C9, as the code has it: the reactivator unwraps a cloud-event envelope, so a body
  whose \<open>data\<close> member is the payload is handled exactly as the payload sent as the
  body itself; the notifier hands the top-level body to its handler as it is, and a
  \<open>data\<close> member of the body has no effect on what it does.
\<close>

theorem envelope_unwrapping:
  "(req_body req = Some (JObj b) \<and> lookup b ''data'' = Some p
      \<and> (\<forall>ms. p = JObj ms \<longrightarrow> lookup ms ''data'' = None)
     \<longrightarrow> handle_task_event fi be cc c0 c req
          = handle_task_event fi be cc c0 c (req\<lparr>req_body := Some p\<rparr>))
   \<and> ((\<forall>k. k \<noteq> ''data'' \<longrightarrow> lookup ms' k = lookup ms k)
     \<longrightarrow> handle_reminder_api fi (Some (JObj ms')) = handle_reminder_api fi (Some (JObj ms)))"
proof -
  have a: "handle_task_event fi be cc c0 c req
          = handle_task_event fi be cc c0 c (req\<lparr>req_body := Some p\<rparr>)"
    if "req_body req = Some (JObj b)" "lookup b ''data'' = Some p"
       "\<forall>ms. p = JObj ms \<longrightarrow> lookup ms ''data'' = None"
    using task_event_try_unwraps [OF that, of fi be cc c0 c]
    by (simp add: handle_task_event_def)
  have b: "handle_reminder_api fi (Some (JObj ms')) = handle_reminder_api fi (Some (JObj ms))"
    if "\<forall>k. k \<noteq> ''data'' \<longrightarrow> lookup ms' k = lookup ms k"
  proof -
    from that have "handle_reminder_event fi (JObj ms') = handle_reminder_event fi (JObj ms)"
      by (intro reminder_handler_reads) simp_all
    then show ?thesis by (simp add: handle_reminder_api_def)
  qed
  from a b show ?thesis by blast
qed

theorem envelope_unwrapping_witness:
  "(req_body \<lparr>req_body = Some (JObj [(''data'', JObj (completion_event ''daily''))]),
              authorization = Some ''Bearer abc''\<rparr>
      = Some (JObj [(''data'', JObj (completion_event ''daily''))])
    \<and> lookup [(''data'', JObj (completion_event ''daily''))] ''data''
        = Some (JObj (completion_event ''daily''))
    \<and> handle_task_event no_parser failing_backend jan8 jan8 jan8
        \<lparr>req_body = Some (JObj [(''data'', JObj (completion_event ''daily''))]),
         authorization = Some ''Bearer abc''\<rparr>
      = handle_task_event no_parser failing_backend jan8 jan8 jan8
        \<lparr>req_body = Some (JObj (completion_event ''daily'')),
         authorization = Some ''Bearer abc''\<rparr>)
   \<and> handle_reminder_api no_parser
        (Some (JObj [(''task_id'', JStr ''t1''), (''title'', JStr ''Pay the rent''),
                     (''user_id'', JStr ''u1''), (''data'', JNull)]))
      = handle_reminder_api no_parser (Some reminder_complete)"
proof -
  let ?req = "\<lparr>req_body = Some (JObj [(''data'', JObj (completion_event ''daily''))]),
               authorization = Some ''Bearer abc''\<rparr>"
  let ?ms' = "[(''task_id'', JStr ''t1''), (''title'', JStr ''Pay the rent''),
               (''user_id'', JStr ''u1''), (''data'', JNull)]"
  let ?ms = "[(''task_id'', JStr ''t1''), (''title'', JStr ''Pay the rent''),
              (''user_id'', JStr ''u1'')]"
  have 1: "req_body ?req = Some (JObj [(''data'', JObj (completion_event ''daily''))])" by simp
  have 2: "lookup [(''data'', JObj (completion_event ''daily''))] ''data''
        = Some (JObj (completion_event ''daily''))" by (simp add: lookup_def)
  have 3: "\<forall>ms. JObj (completion_event ''daily'') = JObj ms \<longrightarrow> lookup ms ''data'' = None"
    by (simp add: completion_event_parts)
  have 4: "\<forall>k. k \<noteq> ''data'' \<longrightarrow> lookup ?ms' k = lookup ?ms k"
    by (simp add: lookup_def)
  from envelope_unwrapping [of ?req "[(''data'', JObj (completion_event ''daily''))]"
      "JObj (completion_event ''daily'')" no_parser failing_backend jan8 jan8 jan8 ?ms' ?ms]
    1 2 3 4
  show ?thesis by (simp add: reminder_complete_def)
qed

text \<open>
  The claim says that the notifier unwraps too. A complete reminder sent as the body is
  answered with 200; the same reminder under \<open>data\<close> is answered with 500 and nothing
  is dispatched.
\<close>

theorem notifier_does_not_unwrap:
  "status_code (handle_reminder_api no_parser (Some reminder_complete)) = 200
   \<and> status_code (handle_reminder_api no_parser (Some (JObj [(''data'', reminder_complete)]))) = 500
   \<and> dispatch_attempts
        (handle_reminder_event no_parser (JObj [(''data'', reminder_complete)])) = 0"
  by (simp add: handle_reminder_api_def handle_reminder_event_def validate_event_data_def
        reminder_complete_def lookup_def Let_def send_notification_def render_due_def
        render_reminder_def)

end
